theory Spec2Isabelle
  imports Complex_Main "HOL-Library.Sublist"
begin

section \<open>Strings as the Python code uses them\<close>

text \<open>
  Python strings are modelled as \<open>string\<close> (a list of 8-bit characters), so the model
  covers ASCII text. Scores are Python floats in the source; here they are exact
  rationals (\<open>rat\<close>), so \<open>0.25\<close> is \<open>1/4\<close> and a division is exact.
\<close>

definition py_isspace :: "char \<Rightarrow> bool" where
  \<comment> \<open>\<open>str.isspace\<close> on ASCII: TAB, LF, VT, FF, CR, FS, GS, RS, US and the blank;
      the same characters are matched by \<open>\s\<close> in a \<open>re\<close> pattern over \<open>str\<close>.\<close>
  "py_isspace c = (c \<in> set [CHR 0x09, CHR 0x0A, CHR 0x0B, CHR 0x0C, CHR 0x0D,
                              CHR 0x1C, CHR 0x1D, CHR 0x1E, CHR 0x1F, CHR '' ''])"

definition py_isdigit :: "char \<Rightarrow> bool" where
  "py_isdigit c = (c \<in> set ''0123456789'')"

definition py_isalpha :: "char \<Rightarrow> bool" where
  \<comment> \<open>the class \<open>[A-Z]\<close> under \<open>re.IGNORECASE\<close>\<close>
  "py_isalpha c = (c \<in> set ''ABCDEFGHIJKLMNOPQRSTUVWXYZabcdefghijklmnopqrstuvwxyz'')"

definition lower_char :: "char \<Rightarrow> char" where
  "lower_char c =
     (case map_of (zip ''ABCDEFGHIJKLMNOPQRSTUVWXYZ'' ''abcdefghijklmnopqrstuvwxyz'') c of
        Some l \<Rightarrow> l
      | None \<Rightarrow> c)"

definition lower :: "string \<Rightarrow> string" where
  \<comment> \<open>\<open>str.lower()\<close>\<close>
  "lower s = map lower_char s"

fun split_acc :: "string \<Rightarrow> string \<Rightarrow> string list" where
  "split_acc [] cur = (if cur = [] then [] else [rev cur])"
| "split_acc (c # cs) cur =
     (if py_isspace c
      then (if cur = [] then split_acc cs [] else rev cur # split_acc cs [])
      else split_acc cs (c # cur))"

definition split :: "string \<Rightarrow> string list" where
  \<comment> \<open>\<open>str.split()\<close> without argument: the maximal runs of non-whitespace characters\<close>
  "split s = split_acc s []"

definition strip :: "string \<Rightarrow> string" where
  \<comment> \<open>\<open>str.strip()\<close> without argument\<close>
  "strip s = rev (dropWhile py_isspace (rev (dropWhile py_isspace s)))"

fun contains :: "string \<Rightarrow> string \<Rightarrow> bool" where
  \<comment> \<open>\<open>sub in s\<close> on strings: \<open>sub\<close> occurs as a contiguous substring of \<open>s\<close>\<close>
  "contains sub [] = (sub = [])"
| "contains sub (c # cs) = (prefix sub (c # cs) \<or> contains sub cs)"

datatype py_error = IndexError | KeyError | ImportError | OtherError

section \<open>model\_manager.py: the similarity backend\<close>

type_synonym encoder = "string \<Rightarrow> string \<Rightarrow> py_error + rat"
  \<comment> \<open>a sentence encoder, taken as the function that encodes two texts and returns their
      cosine similarity, or raises\<close>

record ModelManager =
  sentence_encoder_field :: "encoder option"
  models_dir :: string

definition get_sentence_encoder :: "ModelManager \<Rightarrow> encoder option" where
  \<comment> \<open>"Always return None to force fallback methods"\<close>
  "get_sentence_encoder mm = None"

definition fallback_similarity_score :: "string \<Rightarrow> string \<Rightarrow> rat" where
  "fallback_similarity_score text1 text2 =
     (let text1_lower = lower text1;
          text2_lower = lower text2;
          words1 = set (split text1_lower);
          words2 = set (split text2_lower)
      in if words1 = {} \<or> words2 = {} then 0
         else let overlap = card (words1 \<inter> words2);
                  union = card (words1 \<union> words2)
              in if union > 0 then of_nat overlap / of_nat union else 0)"

definition compute_similarity :: "ModelManager \<Rightarrow> string \<Rightarrow> string \<Rightarrow> py_error + rat" where
  "compute_similarity mm text1 text2 =
     (case get_sentence_encoder mm of
        None \<Rightarrow> Inr (fallback_similarity_score text1 text2)
      | Some enc \<Rightarrow>
          (case enc text1 text2 of
             Inr similarity \<Rightarrow> Inr (max 0 similarity)
           | Inl e \<Rightarrow> Inr (fallback_similarity_score text1 text2)))"

text \<open>The Jaccard similarity of two finite sets, as the specification words it.\<close>

definition word_set :: "string \<Rightarrow> string set" where
  "word_set s = set (split (lower s))"

definition jaccard :: "string set \<Rightarrow> string set \<Rightarrow> rat" where
  "jaccard A B = of_nat (card (A \<inter> B)) / of_nat (card (A \<union> B))"

section \<open>persona\_analyzer.py: the persona model\<close>

record PersonaAnalysis =
  persona :: string
  job_to_be_done :: string
  expertise_areas :: "string list"
  key_interests :: "string list"
  priority_keywords :: "string list"
  analysis_method :: string
  analysis_confidence :: rat

definition expertise_keywords :: "(string \<times> string list) list" where
  \<comment> \<open>the dict literal of \<open>_extract_expertise_areas\<close>, in its insertion order, which
      is the order Python iterates it in\<close>
  "expertise_keywords =
     [(''researcher'', [''research'', ''analysis'', ''methodology'', ''data'']),
      (''analyst'', [''analysis'', ''trends'', ''metrics'', ''performance'']),
      (''student'', [''learning'', ''concepts'', ''fundamentals'', ''exam'']),
      (''investment'', [''financial'', ''revenue'', ''market'', ''growth'']),
      (''phd'', [''advanced'', ''theoretical'', ''methodology'', ''literature'']),
      (''chemistry'', [''chemical'', ''reactions'', ''compounds'', ''mechanisms''])]"

fun extend_areas :: "string \<Rightarrow> (string \<times> string list) list \<Rightarrow> string list \<Rightarrow> string list" where
  \<comment> \<open>the loop \<open>for key, keywords in expertise_keywords.items()\<close> with its
      accumulator \<open>areas\<close>\<close>
  "extend_areas persona_lower [] areas = areas"
| "extend_areas persona_lower ((key, keywords) # rest) areas =
     (if contains key persona_lower
      then extend_areas persona_lower rest (areas @ keywords)
      else extend_areas persona_lower rest areas)"

definition extract_expertise_areas :: "string \<Rightarrow> string list" where
  "extract_expertise_areas p =
     (let persona_lower = lower p;
          areas = extend_areas persona_lower expertise_keywords []
      in take 5 areas)"

definition interest_keywords :: "string list" where
  "interest_keywords =
     [''methodology'', ''dataset'', ''benchmark'', ''performance'',
      ''revenue'', ''trend'', ''investment'', ''strategy'',
      ''concept'', ''mechanism'', ''kinetics'', ''reaction'',
      ''review'', ''analysis'', ''summary'', ''comparison'']"

definition extract_key_interests :: "string \<Rightarrow> string list" where
  "extract_key_interests job =
     (let job_lower = lower job;
          interests = filter (\<lambda>kw. contains kw job_lower) interest_keywords
      in take 5 interests)"

definition strip_chars :: "string \<Rightarrow> string \<Rightarrow> string" where
  \<comment> \<open>\<open>str.strip(chars)\<close>\<close>
  "strip_chars chars s =
     rev (dropWhile (\<lambda>c. c \<in> set chars) (rev (dropWhile (\<lambda>c. c \<in> set chars) s)))"

fun unique_words :: "string list \<Rightarrow> string list \<Rightarrow> string list" where
  \<comment> \<open>"Remove duplicates while preserving order"; \<open>seen\<close> is the set of words met so far\<close>
  "unique_words [] seen = []"
| "unique_words (w # ws) seen =
     (if w \<in> set seen then unique_words ws seen else w # unique_words ws (w # seen))"

definition extract_priority_keywords :: "string \<Rightarrow> string \<Rightarrow> string list" where
  "extract_priority_keywords p job =
     (let combined_text = lower (p @ '' '' @ job);
          words = split combined_text;
          stop_words = [''the'', ''and'', ''or'', ''but'', ''in'', ''on'', ''at'', ''to'',
                        ''for'', ''of'', ''with'', ''by''];
          priority_words = map (strip_chars ''.,!?;:'')
                             (filter (\<lambda>w. length w > 3 \<and> w \<notin> set stop_words) words)
      in take 10 (unique_words priority_words []))"

definition analyze_persona :: "string \<Rightarrow> string \<Rightarrow> PersonaAnalysis" where
  "analyze_persona p job =
     \<lparr>persona = p, job_to_be_done = job,
      expertise_areas = extract_expertise_areas p,
      key_interests = extract_key_interests job,
      priority_keywords = extract_priority_keywords p job,
      analysis_method = ''basic_stub'',
      analysis_confidence = 1/2\<rparr>"

section \<open>document\_processor.py: what the segmenter receives\<close>

text \<open>
  A page is the dict \<open>{"page_number": n, "text": t, ...}\<close> that the document processor
  appends for every page; both keys are always present, so the defaults of
  \<open>page_info.get\<close> are never taken.
\<close>

record page_info =
  page_no :: int
  page_text :: string

record ProcessedDocument =
  filename :: string
  full_path :: string
  text_content :: string
  page_contents :: "page_info list"

section \<open>section\_extractor.py: header patterns\<close>

text \<open>
  The eleven header patterns are compiled with \<open>re.MULTILINE | re.IGNORECASE\<close>. They come
  in three shapes, each matched here by a function that does what the backtracking matcher
  does on that shape:
  \<^item> \<open>Numbered\<close> is \<open>^\d+\.\s+([A-Z][^.]*)\<close>;
  \<^item> \<open>AllCaps\<close> is \<open>^([A-Z][A-Z\s]+)$\<close>;
  \<^item> \<open>Named w\<close> is \<open>^(w)\s*$\<close>.
  Under \<open>IGNORECASE\<close> the class \<open>[A-Z]\<close> is any letter; \<open>\s\<close> and \<open>[^.]\<close> match a
  newline; under \<open>MULTILINE\<close> \<open>^\<close> holds at the start of the string and after every
  newline, \<open>$\<close> at the end of the string and before every newline.
\<close>

datatype header_pattern = Numbered | AllCaps | Named string

definition header_patterns :: "header_pattern list" where
  "header_patterns =
     [Numbered, AllCaps, Named ''Abstract'', Named ''Introduction'', Named ''Methodology'',
      Named ''Results'', Named ''Discussion'', Named ''Conclusion'', Named ''References'',
      Named ''Background'', Named ''Methods'']"

definition newline :: char where
  "newline = CHR 0x0A"

definition greedy_end :: "string \<Rightarrow> bool \<Rightarrow> nat \<Rightarrow> nat option" where
  \<comment> \<open>a greedy repetition has consumed \<open>run\<close> (the longest run of its class) and \<open>$\<close>
      follows: the matcher gives characters back until \<open>$\<close> holds, so the repetition keeps
      the largest \<open>k \<ge> lo\<close> characters such that the string ends there or a newline
      comes next\<close>
  "greedy_end run at_eof lo =
     find (\<lambda>k. (k = length run \<and> at_eof) \<or> (k < length run \<and> run ! k = newline))
          (rev [lo ..< Suc (length run)])"

fun match_here :: "header_pattern \<Rightarrow> string \<Rightarrow> (nat \<times> string) option" where
  \<comment> \<open>the pattern after its \<open>^\<close>, matched at the start of \<open>s\<close>: the length of the match
      and group 1\<close>
  "match_here Numbered s =
     (let ds = takeWhile py_isdigit s; r1 = dropWhile py_isdigit s
      in if ds = [] then None
         else case r1 of
           [] \<Rightarrow> None
         | c # r2 \<Rightarrow>
             if c \<noteq> CHR ''.'' then None
             else let ws = takeWhile py_isspace r2; r3 = dropWhile py_isspace r2
                  in if ws = [] then None
                     else case r3 of
                       [] \<Rightarrow> None
                     | a # r4 \<Rightarrow>
                         if \<not> py_isalpha a then None
                         else let g = a # takeWhile (\<lambda>c. c \<noteq> CHR ''.'') r4
                              in Some (length ds + 1 + length ws + length g, g))"
| "match_here AllCaps s =
     (case s of
        [] \<Rightarrow> None
      | a # r \<Rightarrow>
          if \<not> py_isalpha a then None
          else let run = takeWhile (\<lambda>c. py_isalpha c \<or> py_isspace c) r;
                   after = dropWhile (\<lambda>c. py_isalpha c \<or> py_isspace c) r
               in case greedy_end run (after = []) 1 of
                    None \<Rightarrow> None
                  | Some k \<Rightarrow> Some (1 + k, a # take k run))"
| "match_here (Named w) s =
     (if lower (take (length w) s) \<noteq> lower w then None
      else let r = drop (length w) s;
               run = takeWhile py_isspace r;
               after = dropWhile py_isspace r
           in case greedy_end run (after = []) 0 of
                None \<Rightarrow> None
              | Some k \<Rightarrow> Some (length w + k, take (length w) s))"

fun search_from :: "header_pattern \<Rightarrow> bool \<Rightarrow> string \<Rightarrow> nat \<Rightarrow> (nat \<times> nat \<times> string) option" where
  \<comment> \<open>\<open>s\<close> is the text from offset \<open>p\<close> on, \<open>bol\<close> says whether \<open>^\<close> holds at \<open>p\<close>;
      the leftmost match as (start, end, group 1)\<close>
  "search_from pat bol [] p = None"
| "search_from pat bol (c # cs) p =
     (case (if bol then match_here pat (c # cs) else None) of
        Some (n, g) \<Rightarrow> Some (p, p + n, g)
      | None \<Rightarrow> search_from pat (c = newline) cs (Suc p))"

definition search :: "header_pattern \<Rightarrow> string \<Rightarrow> (nat \<times> nat \<times> string) option" where
  \<comment> \<open>\<open>re.search(pattern, text, re.MULTILINE | re.IGNORECASE)\<close>\<close>
  "search pat txt = search_from pat True txt 0"

fun finditer_from :: "header_pattern \<Rightarrow> bool \<Rightarrow> nat \<Rightarrow> string \<Rightarrow> nat \<Rightarrow> (nat \<times> nat \<times> string) list" where
  \<comment> \<open>as \<open>search_from\<close>, for all matches from left to right without overlap: \<open>skip\<close>
      counts the characters at \<open>p\<close> and after that the previous match still covers\<close>
  "finditer_from pat bol skip [] p = []"
| "finditer_from pat bol skip (c # cs) p =
     (if skip > 0 then finditer_from pat (c = newline) (skip - 1) cs (Suc p)
      else case (if bol then match_here pat (c # cs) else None) of
             Some (n, g) \<Rightarrow> (p, p + n, g) # finditer_from pat (c = newline) (n - 1) cs (Suc p)
           | None \<Rightarrow> finditer_from pat (c = newline) 0 cs (Suc p))"

definition finditer :: "header_pattern \<Rightarrow> string \<Rightarrow> (nat \<times> nat \<times> string) list" where
  \<comment> \<open>\<open>re.finditer(pattern, text, re.MULTILINE | re.IGNORECASE)\<close>\<close>
  "finditer pat txt = finditer_from pat True 0 txt 0"

section \<open>section\_extractor.py: the segmenter\<close>

record ExtractedSection =
  document_name :: string
  page_number :: int
  section_title :: string
  section_text :: string
  section_type :: string
  confidence_score :: rat
  start_position :: nat
  end_position :: nat

definition slice :: "string \<Rightarrow> nat \<Rightarrow> nat \<Rightarrow> string" where
  \<comment> \<open>\<open>text[a:b]\<close> for non-negative \<open>a\<close> and \<open>b\<close>\<close>
  "slice txt a b = take (b - a) (drop a txt)"

fun first_header :: "string \<Rightarrow> header_pattern list \<Rightarrow> nat option" where
  \<comment> \<open>the loop \<open>for pattern in self.header_patterns\<close> of \<open>_find_section_end\<close>: the start
      of the match of the first pattern, in list order, that matches at all\<close>
  "first_header remaining_text [] = None"
| "first_header remaining_text (pat # pats) =
     (case search pat remaining_text of
        Some (s, e, g) \<Rightarrow> Some s
      | None \<Rightarrow> first_header remaining_text pats)"

definition find_section_end :: "string \<Rightarrow> nat \<Rightarrow> nat" where
  "find_section_end txt start_pos =
     (let remaining_text = drop (start_pos + 1) txt
      in case first_header remaining_text header_patterns of
           Some off \<Rightarrow> start_pos + 1 + off
         | None \<Rightarrow> (let max_section_length = 5000
                    in min (start_pos + max_section_length) (length txt)))"

fun page_walk :: "page_info list \<Rightarrow> nat \<Rightarrow> nat \<Rightarrow> int option" where
  \<comment> \<open>the loop of \<open>_estimate_page_number\<close> with its counter \<open>current_pos\<close>\<close>
  "page_walk [] current_pos position = None"
| "page_walk (pg # pgs) current_pos position =
     (if current_pos + length (page_text pg) > position then Some (page_no pg)
      else page_walk pgs (current_pos + length (page_text pg) + 2) position)"

definition estimate_page_number :: "ProcessedDocument \<Rightarrow> nat \<Rightarrow> int" where
  "estimate_page_number doc position =
     (if page_contents doc = [] then 1
      else case page_walk (page_contents doc) 0 position of
             Some n \<Rightarrow> n
           | None \<Rightarrow> int (length (page_contents doc)))"

definition type_mapping :: "(string \<times> string) list" where
  "type_mapping =
     [(''abstract'', ''abstract''), (''introduction'', ''introduction''),
      (''methodology'', ''methods''), (''method'', ''methods''), (''results'', ''results''),
      (''discussion'', ''discussion''), (''conclusion'', ''conclusion''),
      (''references'', ''references''), (''background'', ''background'')]"

definition classify_section_type :: "string \<Rightarrow> string" where
  "classify_section_type title =
     (let title_lower = lower title
      in case find (\<lambda>(key, ty). contains key title_lower) type_mapping of
           Some (key, ty) \<Rightarrow> ty
         | None \<Rightarrow> ''content'')"

definition section_of_match :: "ProcessedDocument \<Rightarrow> nat \<times> nat \<times> string \<Rightarrow> ExtractedSection option" where
  \<comment> \<open>the body of the loop \<open>for match in matches\<close>; \<open>None\<close> is its \<open>continue\<close>. Every
      pattern has one group, so the title is \<open>match.group(1)\<close>.\<close>
  "section_of_match doc m =
     (case m of (start_pos, match_end, group1) \<Rightarrow>
        let txt = text_content doc;
            title = group1;
            end_pos = find_section_end txt start_pos;
            body = strip (slice txt start_pos end_pos)
        in if length body < 50 then None
           else Some \<lparr>document_name = filename doc,
                      page_number = estimate_page_number doc start_pos,
                      section_title = title,
                      section_text = body,
                      section_type = classify_section_type title,
                      confidence_score = 7/10,
                      start_position = start_pos,
                      end_position = end_pos\<rparr>)"

definition extract_from_full_text :: "ProcessedDocument \<Rightarrow> ExtractedSection list" where
  "extract_from_full_text doc =
     concat (map (\<lambda>pat. List.map_filter (section_of_match doc) (finditer pat (text_content doc)))
                 header_patterns)"

fun split_on :: "char \<Rightarrow> string \<Rightarrow> string list" where
  \<comment> \<open>\<open>str.split(sep)\<close> for a separator of one character\<close>
  "split_on sep [] = [[]]"
| "split_on sep (c # cs) =
     (if c = sep then [] # split_on sep cs
      else case split_on sep cs of
             l # ls \<Rightarrow> (c # l) # ls
           | [] \<Rightarrow> [[c]])"

fun str_nat :: "nat \<Rightarrow> string" where
  "str_nat n = (if n < 10 then [''0123456789'' ! n]
                else str_nat (n div 10) @ [''0123456789'' ! (n mod 10)])"

definition str_int :: "int \<Rightarrow> string" where
  \<comment> \<open>the decimal rendering of an integer in an f-string\<close>
  "str_int i = (if i < 0 then CHR ''-'' # str_nat (nat (- i)) else str_nat (nat i))"

definition section_of_page :: "ProcessedDocument \<Rightarrow> page_info \<Rightarrow> ExtractedSection option" where
  \<comment> \<open>the body of the loop \<open>for page_info in doc.page_contents\<close>\<close>
  "section_of_page doc pg =
     (let ptext = page_text pg;
          page_num = page_no pg
      in if length (strip ptext) > 200
         then let lines = take 5 (split_on newline ptext);
                  potential_title = find (\<lambda>line. length line > 0 \<and> length line < 100)
                                         (map strip lines);
                  title = (case potential_title of
                             Some t \<Rightarrow> t
                           | None \<Rightarrow> ''Page '' @ str_int page_num @ '' Content'')
              in Some \<lparr>document_name = filename doc,
                        page_number = page_num,
                        section_title = title,
                        section_text = ptext,
                        section_type = ''content'',
                        confidence_score = 1/2,
                        start_position = 0,
                        end_position = length ptext\<rparr>
         else None)"

definition extract_from_pages :: "ProcessedDocument \<Rightarrow> ExtractedSection list" where
  "extract_from_pages doc = List.map_filter (section_of_page doc) (page_contents doc)"

fun dedup_sections :: "ExtractedSection list \<Rightarrow> string list \<Rightarrow> ExtractedSection list" where
  \<comment> \<open>the loop of \<open>_remove_duplicate_sections\<close>; \<open>seen_titles\<close> holds the keys met so far\<close>
  "dedup_sections [] seen_titles = []"
| "dedup_sections (sec # secs) seen_titles =
     (let title_key = strip (lower (section_title sec))
      in if title_key \<notin> set seen_titles
         then sec # dedup_sections secs (title_key # seen_titles)
         else dedup_sections secs seen_titles)"

definition remove_duplicate_sections :: "ExtractedSection list \<Rightarrow> ExtractedSection list" where
  "remove_duplicate_sections sections = dedup_sections sections []"

definition extract_sections_from_document :: "ProcessedDocument \<Rightarrow> ExtractedSection list" where
  \<comment> \<open>\<open>sorted(..., key=...)\<close> is a stable ascending sort, as \<open>sort_key\<close> is\<close>
  "extract_sections_from_document doc =
     (let full_text_sections = extract_from_full_text doc;
          sections = full_text_sections
                     @ (if length full_text_sections < 2 then extract_from_pages doc else []);
          unique_sections = remove_duplicate_sections sections
      in sort_key start_position unique_sections)"

definition extract_sections :: "ProcessedDocument list \<Rightarrow> ExtractedSection list" where
  \<comment> \<open>no step of \<open>_extract_sections_from_document\<close> raises on a well-typed document, so
      the \<open>except\<close> branch of the loop is not taken\<close>
  "extract_sections processed_docs = concat (map extract_sections_from_document processed_docs)"

section \<open>relevance\_ranker.py: scoring and ranking\<close>

record RankedSection =
  section_field :: ExtractedSection
  relevance_score :: rat
  ranking_factors :: "(string \<times> rat) list"
  importance_rank :: nat

datatype fuzzywuzzy = NotInstalled | Installed "string \<Rightarrow> string \<Rightarrow> py_error + int"
  \<comment> \<open>the optional package behind \<open>from fuzzywuzzy import fuzz\<close>: absent (the import
      raises \<open>ImportError\<close>), or present with its \<open>fuzz.partial_ratio\<close>\<close>

definition ranking_weights :: "(string \<times> rat) list" where
  "ranking_weights =
     [(''keyword_match'', 1/4),
      (''semantic_similarity'', 7/20),
      (''section_type_importance'', 1/4),
      (''content_length'', 1/20),
      (''position_bias'', 1/20),
      (''title_relevance'', 1/20)]"

definition count_keyword :: "string \<Rightarrow> string \<Rightarrow> string \<Rightarrow> nat \<Rightarrow> nat" where
  \<comment> \<open>one round of the loop \<open>for keyword in all_keywords\<close> on the counter \<open>matches\<close>\<close>
  "count_keyword section_title_lower section_text_lower keyword matches =
     (let keyword_lower = lower keyword
      in if contains keyword_lower section_title_lower then matches + 2
         else if contains keyword_lower section_text_lower then matches + 1
         else matches)"

definition calculate_keyword_match_score :: "ExtractedSection \<Rightarrow> PersonaAnalysis \<Rightarrow> rat" where
  "calculate_keyword_match_score sec pa =
     (let section_text_lower = lower (section_text sec);
          section_title_lower = lower (section_title sec);
          all_keywords = expertise_areas pa @ key_interests pa @ priority_keywords pa
      in if all_keywords = [] then 0
         else let total_keywords = length all_keywords;
                  matches = fold (count_keyword section_title_lower section_text_lower)
                                 all_keywords 0
              in min (of_nat matches / (of_nat total_keywords * (3/2))) 1)"

definition type_scores_for :: "string \<Rightarrow> (string \<times> rat) list" where
  "type_scores_for job_lower =
     (if contains ''literature review'' job_lower \<or> contains ''review'' job_lower then
        [(''abstract'', 9/10), (''introduction'', 8/10), (''methods'', 7/10),
         (''results'', 6/10), (''discussion'', 8/10), (''conclusion'', 7/10),
         (''references'', 5/10)]
      else if contains ''analysis'' job_lower \<or> contains ''analyze'' job_lower then
        [(''abstract'', 7/10), (''introduction'', 6/10), (''methods'', 9/10),
         (''results'', 9/10), (''discussion'', 8/10), (''conclusion'', 7/10),
         (''references'', 3/10)]
      else if contains ''exam'' job_lower \<or> contains ''study'' job_lower then
        [(''abstract'', 6/10), (''introduction'', 8/10), (''methods'', 7/10),
         (''results'', 5/10), (''discussion'', 6/10), (''conclusion'', 8/10),
         (''references'', 2/10)]
      else
        [(''abstract'', 7/10), (''introduction'', 7/10), (''methods'', 6/10),
         (''results'', 6/10), (''discussion'', 6/10), (''conclusion'', 6/10),
         (''references'', 3/10)])"

definition calculate_section_type_score :: "ExtractedSection \<Rightarrow> PersonaAnalysis \<Rightarrow> rat" where
  "calculate_section_type_score sec pa =
     (let job_lower = lower (job_to_be_done pa);
          type_scores = type_scores_for job_lower
      in case map_of type_scores (section_type sec) of
           Some v \<Rightarrow> v
         | None \<Rightarrow> 1/2)"

definition calculate_content_length_score :: "ExtractedSection \<Rightarrow> rat" where
  "calculate_content_length_score sec =
     (let text_length = length (section_text sec)
      in if text_length < 100 then 1/10
         else if text_length < 500 then 6/10
         else if text_length \<le> 3000 then 1
         else if text_length \<le> 5000 then 8/10
         else 6/10)"

definition calculate_position_bias_score :: "ExtractedSection \<Rightarrow> rat" where
  "calculate_position_bias_score sec =
     (let page_num = page_number sec
      in if page_num \<le> 2 then 1
         else if page_num \<le> 5 then 8/10
         else if page_num \<le> 10 then 6/10
         else 4/10)"

definition calculate_title_relevance_score :: "ExtractedSection \<Rightarrow> PersonaAnalysis \<Rightarrow> rat" where
  "calculate_title_relevance_score sec pa =
     (let title_lower = lower (section_title sec);
          job_keywords = split (lower (job_to_be_done pa));
          meaningful_keywords =
            filter (\<lambda>word. length word > 3 \<and> word \<notin> set [''that'', ''with'', ''from'', ''this''])
                   job_keywords
      in if meaningful_keywords = [] then 1/2
         else let matches = length (filter (\<lambda>keyword. contains keyword title_lower)
                                           meaningful_keywords)
              in min (of_nat matches / of_nat (length meaningful_keywords)) 1)"

definition simple_overlap_score :: "ExtractedSection \<Rightarrow> PersonaAnalysis \<Rightarrow> rat" where
  "simple_overlap_score sec pa =
     (let context_words = set (split (lower (persona pa @ '' '' @ job_to_be_done pa)));
          section_words = set (split (lower (section_title sec @ '' '' @ take 300 (section_text sec))))
      in if context_words = {} \<or> section_words = {} then 0
         else let overlap = card (context_words \<inter> section_words);
                  union = card (context_words \<union> section_words)
              in if union > 0 then of_nat overlap / of_nat union else 0)"

definition fallback_semantic_score :: "fuzzywuzzy \<Rightarrow> ExtractedSection \<Rightarrow> PersonaAnalysis \<Rightarrow> rat" where
  "fallback_semantic_score fz sec pa =
     (case fz of
        NotInstalled \<Rightarrow> simple_overlap_score sec pa
      | Installed partial_ratio \<Rightarrow>
          (let context = persona pa @ '' '' @ job_to_be_done pa;
               section_content = section_title sec @ '' '' @ take 300 (section_text sec)
           in case partial_ratio (lower context) (lower section_content) of
                Inr ratio \<Rightarrow> of_int ratio / 100
              | Inl e \<Rightarrow> 3/10))"

definition calculate_semantic_similarity_score ::
  "ModelManager \<Rightarrow> fuzzywuzzy \<Rightarrow> ExtractedSection \<Rightarrow> PersonaAnalysis \<Rightarrow> rat" where
  "calculate_semantic_similarity_score mm fz sec pa =
     (let context = persona pa @ '' '' @ job_to_be_done pa;
          section_content = section_title sec
            @ (if length (section_text sec) > 0 then '' '' @ take 500 (section_text sec) else [])
      in case compute_similarity mm context section_content of
           Inr similarity \<Rightarrow>
             if similarity > 7/10 then min (similarity * (6/5)) 1 else similarity
         | Inl e \<Rightarrow> fallback_semantic_score fz sec pa)"

fun weighted_total :: "(string \<times> rat) list \<Rightarrow> py_error + rat" where
  \<comment> \<open>\<open>sum(factors[factor] * self.ranking_weights[factor] for factor in factors.keys())\<close>;
      a factor without a weight would raise \<open>KeyError\<close>\<close>
  "weighted_total [] = Inr 0"
| "weighted_total ((factor, v) # rest) =
     (case map_of ranking_weights factor of
        None \<Rightarrow> Inl KeyError
      | Some w \<Rightarrow> (case weighted_total rest of
                    Inl e \<Rightarrow> Inl e
                  | Inr t \<Rightarrow> Inr (v * w + t)))"

definition calculate_relevance_score ::
  "ModelManager \<Rightarrow> fuzzywuzzy \<Rightarrow> ExtractedSection \<Rightarrow> PersonaAnalysis
     \<Rightarrow> py_error + (rat \<times> (string \<times> rat) list)" where
  "calculate_relevance_score mm fz sec pa =
     (let factors =
            [(''keyword_match'', calculate_keyword_match_score sec pa),
             (''semantic_similarity'', calculate_semantic_similarity_score mm fz sec pa),
             (''section_type_importance'', calculate_section_type_score sec pa),
             (''content_length'', calculate_content_length_score sec),
             (''position_bias'', calculate_position_bias_score sec),
             (''title_relevance'', calculate_title_relevance_score sec pa)]
      in case weighted_total factors of
           Inl e \<Rightarrow> Inl e
         | Inr total_score \<Rightarrow> Inr (total_score, factors))"

definition score_section ::
  "ModelManager \<Rightarrow> fuzzywuzzy \<Rightarrow> PersonaAnalysis \<Rightarrow> ExtractedSection \<Rightarrow> RankedSection list" where
  \<comment> \<open>the body of the loop \<open>for section in sections\<close>: what it appends to
      \<open>ranked_sections\<close>; an exception is logged and the section left out\<close>
  "score_section mm fz pa sec =
     (case calculate_relevance_score mm fz sec pa of
        Inr (score, factors) \<Rightarrow>
          [\<lparr>section_field = sec, relevance_score = score, ranking_factors = factors,
            importance_rank = 0\<rparr>]
      | Inl e \<Rightarrow> [])"

definition assign_ranks :: "RankedSection list \<Rightarrow> RankedSection list" where
  \<comment> \<open>\<open>for i, ranked_section in enumerate(ranked_sections, 1)\<close>\<close>
  "assign_ranks rs =
     map (\<lambda>(i, r). r\<lparr>importance_rank := i\<rparr>) (zip [1 ..< Suc (length rs)] rs)"

definition rank_sections ::
  "ModelManager \<Rightarrow> fuzzywuzzy \<Rightarrow> ExtractedSection list \<Rightarrow> PersonaAnalysis
     \<Rightarrow> py_error + RankedSection list" where
  \<comment> \<open>\<open>list.sort(key=..., reverse=True)\<close> is stable: elements with equal keys keep their
      order, so it is the stable ascending sort on the negated key. The closing log line
      reads \<open>ranked_sections[0]\<close>, which raises \<open>IndexError\<close> on an empty list.\<close>
  "rank_sections mm fz sections pa =
     (let scored = concat (map (score_section mm fz pa) sections);
          sorted_sections = sort_key (\<lambda>x. - relevance_score x) scored;
          ranked_sections = assign_ranks sorted_sections
      in case ranked_sections of
           [] \<Rightarrow> Inl IndexError
         | r0 # rest \<Rightarrow> Inr ranked_sections)"

definition analyze_core ::
  "ModelManager \<Rightarrow> fuzzywuzzy \<Rightarrow> ProcessedDocument list \<Rightarrow> string \<Rightarrow> string
     \<Rightarrow> py_error + RankedSection list" where
  \<comment> \<open>steps 2 to 4 of \<open>DocumentAnalyst.analyze\<close> in main.py, which re-raises whatever
      a step raises\<close>
  "analyze_core mm fz processed_docs p job =
     (let persona_analysis = analyze_persona p job;
          extracted_sections = extract_sections processed_docs
      in rank_sections mm fz extracted_sections persona_analysis)"

section \<open>The specification's wording, and sample inputs\<close>

definition term_points :: "ExtractedSection \<Rightarrow> string \<Rightarrow> nat" where
  \<comment> \<open>what one term adds: 2 for a match in the title, else 1 for a match in the body\<close>
  "term_points sec t =
     (if contains (lower t) (lower (section_title sec)) then 2
      else if contains (lower t) (lower (section_text sec)) then 1
      else 0)"

definition keyword_match_union :: "ExtractedSection \<Rightarrow> PersonaAnalysis \<Rightarrow> rat" where
  \<comment> \<open>the keyword factor over the union of the three term collections, each term once\<close>
  "keyword_match_union sec pa =
     (let terms = remdups (expertise_areas pa @ key_interests pa @ priority_keywords pa)
      in if terms = [] then 0
         else min (of_nat (sum_list (map (term_points sec) terms))
                   / (of_nat (length terms) * (3/2))) 1)"

definition sec_analysis :: ExtractedSection where
  "sec_analysis =
     \<lparr>document_name = ''report.pdf'', page_number = 1,
      section_title = ''Analysis'',
      section_text = ''Analysis of the quarterly figures, set out region by region, follows.'',
      section_type = ''content'', confidence_score = 1/2,
      start_position = 0, end_position = 70\<rparr>"

definition sec_outlook :: ExtractedSection where
  "sec_outlook =
     \<lparr>document_name = ''report.pdf'', page_number = 2,
      section_title = ''Outlook'',
      section_text = ''Outlook for the quarterly figures, set out region by region, follows.'',
      section_type = ''content'', confidence_score = 1/2,
      start_position = 0, end_position = 70\<rparr>"

definition offline_manager :: ModelManager where
  "offline_manager = \<lparr>sentence_encoder_field = None, models_dir = ''models''\<rparr>"

definition empty_doc :: ProcessedDocument where
  \<comment> \<open>a PDF of one page from which no text could be extracted\<close>
  "empty_doc =
     \<lparr>filename = ''empty.pdf'', full_path = ''/in/empty.pdf'', text_content = [],
      page_contents = [\<lparr>page_no = 1, page_text = []\<rparr>]\<rparr>"

definition detected_headers :: "ProcessedDocument \<Rightarrow> (nat \<times> nat \<times> string) list" where
  \<comment> \<open>every header match that the structural pass iterates over, pattern by pattern\<close>
  "detected_headers doc =
     concat (map (\<lambda>pat. finditer pat (text_content doc)) header_patterns)"

definition next_header_starts :: "string \<Rightarrow> nat list" where
  \<comment> \<open>where each header pattern first matches in the text that follows, if it does\<close>
  "next_header_starts remaining_text =
     List.map_filter (\<lambda>pat. map_option fst (search pat remaining_text)) header_patterns"

definition nearest_header :: "string \<Rightarrow> nat option" where
  \<comment> \<open>the start of the nearest header in the text that follows, whatever its pattern\<close>
  "nearest_header remaining_text =
     (case next_header_starts remaining_text of
        [] \<Rightarrow> None
      | s # ss \<Rightarrow> Some (fold min ss s))"

definition text_overview :: string where
  "text_overview =
     ''1. Overview\<newline>Some text.\<newline>RESULTS\<newline>More text.\<newline>2. Details\<newline>End.''"

definition page_contents_list :: string where
  \<comment> \<open>a first page: a notice of 205 characters on one line, then a list of contents\<close>
  "page_contents_list =
     ''(c) 2019 River Board; this report may be copied for study, if the source is named, and it must not be sold or altered; the data behind it are held by the Board and can be asked for in writing, at any time.\<newline>1. Introduction\<newline>2. Methods\<newline>3. Results''"

definition doc_contents_list :: ProcessedDocument where
  "doc_contents_list =
     \<lparr>filename = ''board.pdf'', full_path = ''/in/board.pdf'',
      text_content = page_contents_list,
      page_contents = [\<lparr>page_no = 1, page_text = page_contents_list\<rparr>]\<rparr>"

definition page_two_sections :: string where
  "page_two_sections =
     ''1. Introduction\<newline>This report sets out 3 findings on river water in 2019.\<newline>2. Methods\<newline>We took 40 samples at 8 sites, each of them twice.''"

definition doc_two_sections :: ProcessedDocument where
  "doc_two_sections =
     \<lparr>filename = ''two.pdf'', full_path = ''/in/two.pdf'',
      text_content = page_two_sections,
      page_contents = [\<lparr>page_no = 1, page_text = page_two_sections\<rparr>]\<rparr>"

section \<open>Character classes on the bits of a character\<close>

text \<open>
  The character classes and \<open>lower_char\<close> are defined by the lists of characters they
  hold. On the eight bits of a character they are the following tests, which evaluate
  sample texts much faster.
\<close>

lemma py_isalpha_bits [code]:
  "py_isalpha (Char b0 b1 b2 b3 b4 b5 b6 b7) =
     (\<not> b7 \<and> b6 \<and> (b0 \<or> b1 \<or> b2 \<or> b3 \<or> b4) \<and> \<not> (b4 \<and> b3 \<and> (b2 \<or> (b1 \<and> b0))))"
  by (cases b0; cases b1; cases b2; cases b3; cases b4; cases b5; cases b6; cases b7;
      simp add: py_isalpha_def)

lemma py_isdigit_bits [code]:
  "py_isdigit (Char b0 b1 b2 b3 b4 b5 b6 b7) =
     (\<not> b7 \<and> \<not> b6 \<and> b5 \<and> b4 \<and> (\<not> b3 \<or> (\<not> b2 \<and> \<not> b1)))"
  by (cases b0; cases b1; cases b2; cases b3; cases b4; cases b5; cases b6; cases b7;
      simp add: py_isdigit_def)

lemma py_isspace_bits [code]:
  "py_isspace (Char b0 b1 b2 b3 b4 b5 b6 b7) =
     (\<not> b7 \<and> \<not> b6 \<and>
      (if b5 then \<not> b4 \<and> \<not> b3 \<and> \<not> b2 \<and> \<not> b1 \<and> \<not> b0
       else if b4 then b3 \<and> b2
       else b3 \<and> \<not> (b2 \<and> b1) \<and> (b2 \<or> b1 \<or> b0)))"
  by (cases b0; cases b1; cases b2; cases b3; cases b4; cases b5; cases b6; cases b7;
      simp add: py_isspace_def)

lemma lower_char_bits [code]:
  "lower_char (Char b0 b1 b2 b3 b4 b5 b6 b7) =
     (if \<not> b7 \<and> b6 \<and> \<not> b5 \<and> (b0 \<or> b1 \<or> b2 \<or> b3 \<or> b4)
           \<and> \<not> (b4 \<and> b3 \<and> (b2 \<or> (b1 \<and> b0)))
      then Char b0 b1 b2 b3 b4 True b6 b7
      else Char b0 b1 b2 b3 b4 b5 b6 b7)"
  by (cases b0; cases b1; cases b2; cases b3; cases b4; cases b5; cases b6; cases b7;
      simp add: lower_char_def)

section \<open>Properties of the similarity backend\<close>

lemma finite_word_set: "finite (word_set s)"
  by (simp add: word_set_def)

lemma word_set_empty_string: "word_set [] = {}"
  by (simp add: word_set_def lower_def split_def)

lemma jaccard_range: "finite A \<Longrightarrow> finite B \<Longrightarrow> 0 \<le> jaccard A B \<and> jaccard A B \<le> 1"
proof -
  assume fin: "finite A" "finite B"
  have "card (A \<inter> B) \<le> card (A \<union> B)"
    using fin by (intro card_mono) auto
  then have le: "(of_nat (card (A \<inter> B)) :: rat) \<le> of_nat (card (A \<union> B))"
    by simp
  show ?thesis
  proof (cases "card (A \<union> B) = 0")
    case True
    then show ?thesis by (simp add: jaccard_def)
  next
    case False
    then have "(0::rat) < of_nat (card (A \<union> B))" by simp
    with le show ?thesis
      unfolding jaccard_def by (simp add: divide_le_eq_1)
  qed
qed

lemma fallback_similarity_score_jaccard:
  "fallback_similarity_score a b =
     (if word_set a = {} \<or> word_set b = {} then 0 else jaccard (word_set a) (word_set b))"
proof (cases "word_set a = {} \<or> word_set b = {}")
  case True
  then show ?thesis
    by (auto simp: fallback_similarity_score_def word_set_def Let_def)
next
  case False
  then have "word_set a \<union> word_set b \<noteq> {}" by simp
  then have "card (word_set a \<union> word_set b) > 0"
    using finite_word_set by (simp add: card_gt_0_iff)
  with False show ?thesis
    by (simp add: fallback_similarity_score_def word_set_def jaccard_def Let_def)
qed

lemma fallback_similarity_score_range:
  "0 \<le> fallback_similarity_score a b \<and> fallback_similarity_score a b \<le> 1"
  using jaccard_range [OF finite_word_set finite_word_set, of a b]
  by (simp add: fallback_similarity_score_jaccard)

lemma compute_similarity_fallback:
  "compute_similarity mm a b = Inr (fallback_similarity_score a b)"
  by (simp add: compute_similarity_def get_sentence_encoder_def)

lemma semantic_similarity_score_independent:
  "calculate_semantic_similarity_score mm fz sec pa =
   calculate_semantic_similarity_score mm' fz' sec pa"
  by (simp add: calculate_semantic_similarity_score_def compute_similarity_fallback)

text \<open>
  Claim C7. For every pair of strings, the lexical fallback returns the Jaccard similarity
  \<open>|A \<inter> B| / |A \<union> B|\<close> of the two case-folded, whitespace-tokenized word sets, and
  exactly 0 whenever either set is empty; in particular the similarity of the empty string
  with anything, on either side, is 0.
\<close>

theorem fallback_similarity_is_jaccard:
  "fallback_similarity_score a b =
     (if word_set a = {} \<or> word_set b = {} then 0 else jaccard (word_set a) (word_set b))
   \<and> fallback_similarity_score [] b = 0
   \<and> fallback_similarity_score a [] = 0
   \<and> fallback_similarity_score [] ''anything'' = 0
   \<and> fallback_similarity_score ''anything'' [] = 0"
  by (simp add: fallback_similarity_score_jaccard word_set_empty_string)

text \<open>
  Claim C10. \<open>get_sentence_encoder\<close> returns \<open>None\<close> whatever the state of the model
  manager, so \<open>compute_similarity\<close> returns, without raising, exactly the lexical
  word-overlap score of its two arguments. The value depends on the two strings only: two
  calls on the same strings agree, whatever the manager's state, and so do two scorings of
  the same section against the same persona.
\<close>

theorem compute_similarity_is_fallback:
  "get_sentence_encoder mm = None
   \<and> compute_similarity mm a b = Inr (fallback_similarity_score a b)
   \<and> compute_similarity mm a b = compute_similarity mm' a b
   \<and> calculate_semantic_similarity_score mm fz sec pa =
       calculate_semantic_similarity_score mm' fz' sec pa
   \<and> calculate_relevance_score mm fz sec pa = calculate_relevance_score mm' fz' sec pa"
proof -
  have "calculate_relevance_score mm fz sec pa = calculate_relevance_score mm' fz' sec pa"
    unfolding calculate_relevance_score_def
    using semantic_similarity_score_independent [of mm fz sec pa mm' fz'] by simp
  then show ?thesis
    using semantic_similarity_score_independent [of mm fz sec pa mm' fz']
    by (simp add: compute_similarity_fallback get_sentence_encoder_def)
qed

section \<open>Properties of the persona model\<close>

lemma extend_areas_concat:
  "extend_areas pl tbl areas =
     areas @ concat (map snd (filter (\<lambda>(key, keywords). contains key pl) tbl))"
  by (induction pl tbl areas rule: extend_areas.induct) auto

text \<open>
  Claim C9, as stated, fails. It says that the expertise terms are the union of the term
  lists of the matching role keywords, capped at 5, and so hold no term twice. A persona
  that names both a researcher and an analyst gets "analysis" twice among its five terms.
\<close>

theorem expertise_areas_duplicate:
  "extract_expertise_areas ''Researcher and analyst'' =
     [''research'', ''analysis'', ''methodology'', ''data'', ''analysis'']
   \<and> \<not> distinct (extract_expertise_areas ''Researcher and analyst'')"
  by code_simp

text \<open>
  Claim C9, amended. For every persona string, the expertise terms are the first 5 entries
  of the concatenation, in table order, of the term lists of the role keywords that occur
  in the lower-cased persona: at most 5 entries, each taken from one of those lists. A
  term that two matching roles share is not merged.
\<close>

theorem expertise_areas_is_truncated_concatenation:
  "extract_expertise_areas p =
     take 5 (concat (map snd (filter (\<lambda>(key, keywords). contains key (lower p))
                                     expertise_keywords)))
   \<and> length (extract_expertise_areas p) \<le> 5
   \<and> set (extract_expertise_areas p)
       \<subseteq> \<Union> (set ` snd ` {kv \<in> set expertise_keywords. contains (fst kv) (lower p)})"
proof -
  let ?matching = "filter (\<lambda>(key, keywords). contains key (lower p)) expertise_keywords"
  have eq: "extract_expertise_areas p = take 5 (concat (map snd ?matching))"
    by (simp add: extract_expertise_areas_def extend_areas_concat)
  have "set (extract_expertise_areas p) \<subseteq> set (concat (map snd ?matching))"
    unfolding eq by (rule set_take_subset)
  also have "\<dots> \<subseteq> \<Union> (set ` snd ` {kv \<in> set expertise_keywords. contains (fst kv) (lower p)})"
    by auto
  finally show ?thesis using eq by simp
qed

section \<open>Properties of the relevance scorer\<close>

lemma fold_count_keyword:
  "fold (count_keyword (lower (section_title sec)) (lower (section_text sec))) kws m =
     m + sum_list (map (term_points sec) kws)"
  by (induction kws arbitrary: m) (auto simp: count_keyword_def term_points_def Let_def)

lemma keyword_match_score_sum:
  "calculate_keyword_match_score sec pa =
     (let terms = expertise_areas pa @ key_interests pa @ priority_keywords pa
      in if terms = [] then 0
         else min (of_nat (sum_list (map (term_points sec) terms))
                   / (of_nat (length terms) * (3/2))) 1)"
  unfolding calculate_keyword_match_score_def Let_def fold_count_keyword by simp

text \<open>
  Claim C6, as stated, fails. It takes the terms from the union of the expertise, interest
  and priority terms. The code walks the three lists one after the other, so a term that
  occurs in several of them is counted each time, in the sum and in the term count. For
  the persona "analyst" with the job "analysis", the term "analysis" occurs three times
  among seven entries: the code's factor is 4/7, the factor over the union of the five
  distinct terms is 4/15.
\<close>

theorem keyword_match_counts_repeated_terms:
  "expertise_areas (analyze_persona ''analyst'' ''analysis'') @
     key_interests (analyze_persona ''analyst'' ''analysis'') @
     priority_keywords (analyze_persona ''analyst'' ''analysis'') =
     [''analysis'', ''trends'', ''metrics'', ''performance'', ''analysis'', ''analyst'',
      ''analysis'']
   \<and> calculate_keyword_match_score sec_analysis (analyze_persona ''analyst'' ''analysis'') = 4/7
   \<and> keyword_match_union sec_analysis (analyze_persona ''analyst'' ''analysis'') = 4/15"
  by code_simp

text \<open>
  Claim C6, amended. For every segment and persona model, the keyword factor runs over the
  concatenation of the expertise, interest and priority term lists, repeated terms
  included: each entry adds 2 if its lower-cased form is a substring of the lower-cased
  title, else 1 if it is a substring of the lower-cased body, else 0; the sum is divided
  by (number of entries times 1.5) and clamped to 1; with no entry the factor is 0. The
  terms travel and guide against the title "Travel Guide" give (2+2)/3, clamped to 1.
\<close>

theorem keyword_match_score_over_concatenation:
  "calculate_keyword_match_score sec pa =
     (let terms = expertise_areas pa @ key_interests pa @ priority_keywords pa
      in if terms = [] then 0
         else min (of_nat (sum_list (map (term_points sec) terms))
                   / (of_nat (length terms) * (3/2))) 1)
   \<and> calculate_keyword_match_score (sec\<lparr>section_title := ''Travel Guide''\<rparr>)
        (pa\<lparr>expertise_areas := [''travel''], key_interests := [''guide''],
            priority_keywords := []\<rparr>) = min (4/3) 1"
proof -
  have "calculate_keyword_match_score (sec\<lparr>section_title := ''Travel Guide''\<rparr>)
          (pa\<lparr>expertise_areas := [''travel''], key_interests := [''guide''],
              priority_keywords := []\<rparr>) = 1"
    by (simp add: keyword_match_score_sum term_points_def lower_def lower_char_def)
  then show ?thesis
    using keyword_match_score_sum [of sec pa] by simp
qed

lemma keyword_match_range:
  "0 \<le> calculate_keyword_match_score sec pa \<and> calculate_keyword_match_score sec pa \<le> 1"
  by (simp add: calculate_keyword_match_score_def Let_def)

lemma semantic_similarity_range:
  "0 \<le> calculate_semantic_similarity_score mm fz sec pa
   \<and> calculate_semantic_similarity_score mm fz sec pa \<le> 1"
proof -
  let ?s = "fallback_similarity_score (persona pa @ '' '' @ job_to_be_done pa)
      (section_title sec
         @ (if length (section_text sec) > 0 then '' '' @ take 500 (section_text sec) else []))"
  have r: "0 \<le> ?s \<and> ?s \<le> 1"
    by (rule fallback_similarity_score_range)
  have "calculate_semantic_similarity_score mm fz sec pa =
          (if ?s > 7/10 then min (?s * (6/5)) 1 else ?s)"
    by (simp add: calculate_semantic_similarity_score_def compute_similarity_fallback Let_def)
  with r show ?thesis by auto
qed

lemma section_type_range:
  "0 \<le> calculate_section_type_score sec pa \<and> calculate_section_type_score sec pa \<le> 1"
  by (simp add: calculate_section_type_score_def type_scores_for_def Let_def)

lemma content_length_range:
  "0 \<le> calculate_content_length_score sec \<and> calculate_content_length_score sec \<le> 1"
  by (simp add: calculate_content_length_score_def Let_def)

lemma position_bias_range:
  "0 \<le> calculate_position_bias_score sec \<and> calculate_position_bias_score sec \<le> 1"
  by (simp add: calculate_position_bias_score_def Let_def)

lemma title_relevance_range:
  "0 \<le> calculate_title_relevance_score sec pa \<and> calculate_title_relevance_score sec pa \<le> 1"
  by (simp add: calculate_title_relevance_score_def Let_def)

lemma relevance_score_eq:
  "calculate_relevance_score mm fz sec pa =
     Inr (calculate_keyword_match_score sec pa * (1/4)
          + calculate_semantic_similarity_score mm fz sec pa * (7/20)
          + calculate_section_type_score sec pa * (1/4)
          + calculate_content_length_score sec * (1/20)
          + calculate_position_bias_score sec * (1/20)
          + calculate_title_relevance_score sec pa * (1/20),
          [(''keyword_match'', calculate_keyword_match_score sec pa),
           (''semantic_similarity'', calculate_semantic_similarity_score mm fz sec pa),
           (''section_type_importance'', calculate_section_type_score sec pa),
           (''content_length'', calculate_content_length_score sec),
           (''position_bias'', calculate_position_bias_score sec),
           (''title_relevance'', calculate_title_relevance_score sec pa)])"
  by (simp add: calculate_relevance_score_def ranking_weights_def)

text \<open>
  Claim C1. For every scored segment that the relevance scorer produces, the total score
  is the sum over the six factors of the factor's value times its fixed weight
  (keyword_match 0.25, semantic_similarity 0.35, section_type_importance 0.25,
  content_length 0.05, position_bias 0.05, title_relevance 0.05), so certainly within
  1e-6 of it, and it lies between 0 and 1, as every factor does. Scores are exact
  rationals here; the scorer never raises.
\<close>

theorem relevance_score_is_weighted_sum:
  "\<exists>kw ss st cl pb tr score.
     calculate_relevance_score mm fz sec pa =
       Inr (score, [(''keyword_match'', kw), (''semantic_similarity'', ss),
                    (''section_type_importance'', st), (''content_length'', cl),
                    (''position_bias'', pb), (''title_relevance'', tr)])
   \<and> score_section mm fz pa sec =
       [\<lparr>section_field = sec, relevance_score = score,
         ranking_factors = [(''keyword_match'', kw), (''semantic_similarity'', ss),
                    (''section_type_importance'', st), (''content_length'', cl),
                    (''position_bias'', pb), (''title_relevance'', tr)],
         importance_rank = 0\<rparr>]
   \<and> score = kw * (25/100) + ss * (35/100) + st * (25/100) + cl * (5/100) + pb * (5/100) + tr * (5/100)
   \<and> \<bar>score - (kw * (25/100) + ss * (35/100) + st * (25/100) + cl * (5/100) + pb * (5/100) + tr * (5/100))\<bar> \<le> 1/1000000
   \<and> 0 \<le> score \<and> score \<le> 1
   \<and> list_all (\<lambda>v. 0 \<le> v \<and> v \<le> 1) [kw, ss, st, cl, pb, tr]"
proof -
  let ?kw = "calculate_keyword_match_score sec pa"
  let ?ss = "calculate_semantic_similarity_score mm fz sec pa"
  let ?st = "calculate_section_type_score sec pa"
  let ?cl = "calculate_content_length_score sec"
  let ?pb = "calculate_position_bias_score sec"
  let ?tr = "calculate_title_relevance_score sec pa"
  let ?score = "?kw * (1/4) + ?ss * (7/20) + ?st * (1/4) + ?cl * (1/20) + ?pb * (1/20) + ?tr * (1/20)"
  note r = keyword_match_range [of sec pa] semantic_similarity_range [of mm fz sec pa]
    section_type_range [of sec pa] content_length_range [of sec] position_bias_range [of sec]
    title_relevance_range [of sec pa]
  have lo: "0 \<le> ?score" using r by simp
  have hi: "?score \<le> 1" using r by linarith
  have sc: "score_section mm fz pa sec =
       [\<lparr>section_field = sec, relevance_score = ?score,
         ranking_factors = [(''keyword_match'', ?kw), (''semantic_similarity'', ?ss),
                    (''section_type_importance'', ?st), (''content_length'', ?cl),
                    (''position_bias'', ?pb), (''title_relevance'', ?tr)],
         importance_rank = 0\<rparr>]"
    by (simp add: score_section_def relevance_score_eq)
  show ?thesis
    apply (rule exI [of _ ?kw], rule exI [of _ ?ss], rule exI [of _ ?st])
    apply (rule exI [of _ ?cl], rule exI [of _ ?pb], rule exI [of _ ?tr])
    apply (rule exI [of _ ?score])
    using lo hi r sc by (simp add: relevance_score_eq)
qed

section \<open>Properties of the ranker\<close>

lemma score_section_single:
  "score_section mm fz pa sec =
     [\<lparr>section_field = sec,
       relevance_score = fst (projr (calculate_relevance_score mm fz sec pa)),
       ranking_factors = snd (projr (calculate_relevance_score mm fz sec pa)),
       importance_rank = 0\<rparr>]"
  by (simp add: score_section_def relevance_score_eq)

lemma length_scored:
  "length (concat (map (score_section mm fz pa) sections)) = length sections"
  by (induction sections) (simp_all add: score_section_single)

lemma assign_ranks_length: "length (assign_ranks rs) = length rs"
  by (simp add: assign_ranks_def del: upt_Suc)

lemma assign_ranks_nth:
  "i < length rs \<Longrightarrow> assign_ranks rs ! i = (rs ! i)\<lparr>importance_rank := Suc i\<rparr>"
  by (simp add: assign_ranks_def del: upt_Suc)

lemma assign_ranks_ranks: "map importance_rank (assign_ranks rs) = [1 ..< Suc (length rs)]"
  by (rule nth_equalityI) (simp_all add: assign_ranks_length assign_ranks_nth del: upt_Suc)

lemma assign_ranks_reset:
  "map (\<lambda>r. r\<lparr>importance_rank := 0\<rparr>) (assign_ranks rs) = map (\<lambda>r. r\<lparr>importance_rank := 0\<rparr>) rs"
  by (rule nth_equalityI) (simp_all add: assign_ranks_length assign_ranks_nth)

lemma assign_ranks_scores:
  "map relevance_score (assign_ranks rs) = map relevance_score rs"
  by (rule nth_equalityI) (simp_all add: assign_ranks_length assign_ranks_nth)

lemma scored_rank0:
  "r \<in> set (concat (map (score_section mm fz pa) sections)) \<Longrightarrow> r\<lparr>importance_rank := 0\<rparr> = r"
  by (auto simp: score_section_single)

lemma sorted_desc:
  "sorted_wrt (\<lambda>a b. relevance_score b \<le> relevance_score a) (sort_key (\<lambda>x. - relevance_score x) xs)"
proof -
  have "sorted (map (\<lambda>x. - relevance_score x) (sort_key (\<lambda>x. - relevance_score x) xs))"
    by (rule sorted_sort_key)
  then show ?thesis by (simp add: sorted_map)
qed

lemma sorted_wrt_scores:
  "sorted_wrt (\<lambda>a b. relevance_score b \<le> relevance_score a) xs \<longleftrightarrow> sorted_wrt (\<lambda>a b. b \<le> a) (map relevance_score xs)"
  by (simp add: sorted_wrt_map)

text \<open>
  Claim C5. For every non-empty input sequence, the ranker returns as many ranked segments
  as it was given, in descending order of score; segments of equal score keep the order
  they had in the input (for every score, the segments with that score appear in the
  output in their input order), and the importance ranks are 1, 2, ..., N along the
  output, each once.
\<close>

theorem rank_sections_sorted_stable_dense:
  assumes "sections \<noteq> []"
  shows "\<exists>rs. rank_sections mm fz sections pa = Inr rs
     \<and> length rs = length sections
     \<and> sorted_wrt (\<lambda>a b. relevance_score b \<le> relevance_score a) rs
     \<and> map importance_rank rs = [1 ..< Suc (length sections)]
     \<and> (\<forall>k. filter (\<lambda>r. relevance_score r = k) (map (\<lambda>r. r\<lparr>importance_rank := 0\<rparr>) rs)
            = filter (\<lambda>r. relevance_score r = k) (concat (map (score_section mm fz pa) sections)))"
proof -
  let ?scored = "concat (map (score_section mm fz pa) sections)"
  let ?sorted = "sort_key (\<lambda>x. - relevance_score x) ?scored"
  let ?rs = "assign_ranks ?sorted"
  have len: "length ?rs = length sections"
    by (simp add: assign_ranks_length length_scored)
  with assms have "?rs \<noteq> []" by auto
  then have res: "rank_sections mm fz sections pa = Inr ?rs"
    by (auto simp: rank_sections_def Let_def split: list.splits)
  have srt: "sorted_wrt (\<lambda>a b. relevance_score b \<le> relevance_score a) ?rs"
    using sorted_desc [of ?scored]
    by (simp add: sorted_wrt_scores assign_ranks_scores)
  have rk: "map importance_rank ?rs = [1 ..< Suc (length sections)]"
    by (simp add: assign_ranks_ranks length_scored)
  have stab: "filter (\<lambda>r. relevance_score r = k) (map (\<lambda>r. r\<lparr>importance_rank := 0\<rparr>) ?rs)
            = filter (\<lambda>r. relevance_score r = k) ?scored" for k
  proof -
    have "map (\<lambda>r. r\<lparr>importance_rank := 0\<rparr>) ?rs = map (\<lambda>r. r\<lparr>importance_rank := 0\<rparr>) ?sorted"
      by (rule assign_ranks_reset)
    also have "\<dots> = ?sorted"
      by (rule map_idI) (simp add: scored_rank0)
    finally have eq: "map (\<lambda>r. r\<lparr>importance_rank := 0\<rparr>) ?rs = ?sorted" .
    have "filter (\<lambda>r. - relevance_score r = - k) ?sorted = filter (\<lambda>r. - relevance_score r = - k) ?scored"
      by (rule sort_key_stable)
    then show ?thesis unfolding eq by simp
  qed
  show ?thesis using res len srt rk stab by blast
qed

theorem rank_sections_sorted_stable_dense_witness:
  "[sec_analysis, sec_outlook] \<noteq> []
   \<and> (\<exists>rs. rank_sections offline_manager NotInstalled [sec_analysis, sec_outlook]
               (analyze_persona ''student'' ''figures'') = Inr rs
     \<and> length rs = length [sec_analysis, sec_outlook]
     \<and> sorted_wrt (\<lambda>a b. relevance_score b \<le> relevance_score a) rs
     \<and> map importance_rank rs = [1 ..< Suc (length [sec_analysis, sec_outlook])]
     \<and> (\<forall>k. filter (\<lambda>r. relevance_score r = k) (map (\<lambda>r. r\<lparr>importance_rank := 0\<rparr>) rs)
            = filter (\<lambda>r. relevance_score r = k)
                (concat (map (score_section offline_manager NotInstalled
                               (analyze_persona ''student'' ''figures''))
                             [sec_analysis, sec_outlook]))))
   \<and> map (\<lambda>r. (section_title (section_field r), relevance_score r, importance_rank r))
        (projr (rank_sections offline_manager NotInstalled [sec_analysis, sec_outlook]
                  (analyze_persona ''student'' ''figures'')))
       = [(''Analysis'', 187/900, 1), (''Outlook'', 187/900, 2)]"
proof -
  have h: "[sec_analysis, sec_outlook] \<noteq> []" by simp
  have v: "map (\<lambda>r. (section_title (section_field r), relevance_score r, importance_rank r))
        (projr (rank_sections offline_manager NotInstalled [sec_analysis, sec_outlook]
                  (analyze_persona ''student'' ''figures'')))
       = [(''Analysis'', 187/900, 1), (''Outlook'', 187/900, 2)]"
    by code_simp
  show ?thesis
    using h v rank_sections_sorted_stable_dense [OF h, of offline_manager NotInstalled
        "analyze_persona ''student'' ''figures''"]
    by blast
qed

text \<open>
  Claim C8 says that ranking completes with an empty result when segmentation yields no
  segment. The code does not: after sorting, \<open>rank_sections\<close> formats
  \<open>ranked_sections[0]\<close> into its closing log line, which raises \<open>IndexError\<close> on the
  empty list, and \<open>analyze\<close> re-raises it. Segmentation itself returns the empty list
  for no document and for a document without text.
\<close>

theorem rank_sections_empty_raises:
  "extract_sections [] = []
   \<and> extract_sections [empty_doc] = []
   \<and> rank_sections mm fz [] pa = Inl IndexError
   \<and> analyze_core mm fz [] p job = Inl IndexError
   \<and> analyze_core mm fz [empty_doc] p job = Inl IndexError"
proof -
  have e: "extract_sections [empty_doc] = []"
    by code_simp
  have r: "rank_sections mm fz [] pa = Inl IndexError" for pa
    by (simp add: rank_sections_def assign_ranks_def)
  show ?thesis using e r by (simp add: analyze_core_def extract_sections_def)
qed

section \<open>Properties of the segmenter\<close>

lemma length_strip_le: "length (strip s) \<le> length s"
proof -
  have "length (strip s) \<le> length (dropWhile py_isspace s)"
    unfolding strip_def
    using length_dropWhile_le [of py_isspace "rev (dropWhile py_isspace s)"] by simp
  also have "\<dots> \<le> length s"
    by (rule length_dropWhile_le)
  finally show ?thesis .
qed

lemma section_of_match_body:
  "section_of_match doc m = Some sec
     \<Longrightarrow> 50 \<le> length (section_text sec) \<and> confidence_score sec = 7/10"
  by (cases m) (auto simp: section_of_match_def Let_def split: if_splits)

lemma section_of_page_body:
  "section_of_page doc pg = Some sec
     \<Longrightarrow> 200 < length (section_text sec) \<and> confidence_score sec = 1/2"
  using length_strip_le [of "page_text pg"]
  by (auto simp: section_of_page_def Let_def split: if_splits)

lemma set_map_filter_iff:
  "y \<in> set (List.map_filter f xs) \<longleftrightarrow> (\<exists>x \<in> set xs. f x = Some y)"
  by (induction xs) (auto simp: List.map_filter_simps split: option.splits)

lemma full_text_section:
  "sec \<in> set (extract_from_full_text doc)
     \<Longrightarrow> 50 \<le> length (section_text sec) \<and> confidence_score sec = 7/10"
  by (auto simp: extract_from_full_text_def set_map_filter_iff dest: section_of_match_body)

lemma pages_section:
  "sec \<in> set (extract_from_pages doc)
     \<Longrightarrow> 200 < length (section_text sec) \<and> confidence_score sec = 1/2"
  by (auto simp: extract_from_pages_def set_map_filter_iff dest: section_of_page_body)

lemma dedup_sections_subset: "set (dedup_sections secs seen) \<subseteq> set secs"
  by (induction secs seen rule: dedup_sections.induct) (auto simp: Let_def)

lemma document_sections_subset:
  "set (extract_sections_from_document doc)
     \<subseteq> set (extract_from_full_text doc) \<union> set (extract_from_pages doc)"
  using dedup_sections_subset
  by (fastforce simp: extract_sections_from_document_def remove_duplicate_sections_def Let_def
      split: if_splits)

lemma document_section_body:
  "sec \<in> set (extract_sections_from_document doc) \<Longrightarrow> 50 \<le> length (section_text sec)"
  using document_sections_subset [of doc] full_text_section [of sec doc]
    pages_section [of sec doc]
  by fastforce

text \<open>
  Claim C4. Every segment that the segmenter emits for a document, from the structural
  pass or from the page-fallback pass, after deduplication and sorting, has a body of at
  least 50 characters; so has every segment of a batch of documents.
\<close>

theorem segments_have_min_body_length:
  "(\<forall>sec \<in> set (extract_sections_from_document doc). 50 \<le> length (section_text sec))
   \<and> (\<forall>sec \<in> set (extract_sections processed_docs). 50 \<le> length (section_text sec))"
  by (auto simp: extract_sections_def dest: document_section_body)

theorem segments_have_min_body_length_witness:
  "map (\<lambda>sec. length (section_text sec)) (extract_sections_from_document doc_two_sections)
     = [71, 61]
   \<and> list_all (\<lambda>sec. 50 \<le> length (section_text sec))
        (extract_sections_from_document doc_two_sections)"
proof -
  have v: "map (\<lambda>sec. length (section_text sec))
             (extract_sections_from_document doc_two_sections) = [71, 61]"
    by code_simp
  show ?thesis
    using v segments_have_min_body_length [of doc_two_sections "[]"]
    by (simp add: list_all_iff)
qed

text \<open>
  Claim C2, as stated, fails. It says that the page-fallback pass does not run for a
  document in which the structural pass detects at least 2 headers. The code counts the
  segments that the structural pass keeps, not the headers it detects. On a page that
  holds a long notice and a list of contents, two headers are detected, both bodies are
  shorter than 50 characters and are discarded, and the only segment of the output is the
  page-fallback segment, with confidence 0.5 and the first short line as its title.
\<close>

theorem page_fallback_runs_despite_two_headers:
  "length (detected_headers doc_contents_list) = 2
   \<and> extract_from_full_text doc_contents_list = []
   \<and> map (\<lambda>s. (section_title s, confidence_score s, start_position s, end_position s))
        (extract_sections_from_document doc_contents_list)
       = [(''1. Introduction'', 1/2, 0, 243)]"
  by code_simp

text \<open>
  Claim C2, amended. For every document for which the structural pass produces at least 2
  segments (headers whose body has at least 50 characters), the page-fallback pass does
  not run: the output is the deduplicated structural segments sorted by start offset, all
  of them structural-pass segments of confidence 0.7.
\<close>

theorem no_page_fallback_with_two_structural_segments:
  assumes "2 \<le> length (extract_from_full_text doc)"
  shows "extract_sections_from_document doc =
           sort_key start_position (remove_duplicate_sections (extract_from_full_text doc))
         \<and> set (extract_sections_from_document doc) \<subseteq> set (extract_from_full_text doc)
         \<and> list_all (\<lambda>sec. confidence_score sec = 7/10) (extract_sections_from_document doc)"
proof -
  have eq: "extract_sections_from_document doc =
           sort_key start_position (remove_duplicate_sections (extract_from_full_text doc))"
    using assms by (simp add: extract_sections_from_document_def Let_def)
  have sub: "set (extract_sections_from_document doc) \<subseteq> set (extract_from_full_text doc)"
    unfolding eq using dedup_sections_subset [of "extract_from_full_text doc" "[]"]
    by (simp add: remove_duplicate_sections_def)
  have "list_all (\<lambda>sec. confidence_score sec = 7/10) (extract_sections_from_document doc)"
    using sub full_text_section [of _ doc] by (auto simp: list_all_iff)
  with eq sub show ?thesis by simp
qed

theorem no_page_fallback_with_two_structural_segments_witness:
  "2 \<le> length (extract_from_full_text doc_two_sections)
   \<and> extract_sections_from_document doc_two_sections =
       sort_key start_position
         (remove_duplicate_sections (extract_from_full_text doc_two_sections))
   \<and> set (extract_sections_from_document doc_two_sections)
       \<subseteq> set (extract_from_full_text doc_two_sections)
   \<and> list_all (\<lambda>sec. confidence_score sec = 7/10)
        (extract_sections_from_document doc_two_sections)"
proof -
  have h: "2 \<le> length (extract_from_full_text doc_two_sections)"
    by code_simp
  show ?thesis
    using h no_page_fallback_with_two_structural_segments [OF h] by blast
qed

text \<open>
  Claim C3 says that the section of a header ends at the nearest header that follows it.
  \<open>_find_section_end\<close> tries the patterns in list order and returns at the first pattern
  that matches anywhere in the rest of the text, so a numbered heading far below wins
  over an upper-case or named header just below. In the sample text the header
  \<open>RESULTS\<close> starts at offset 23 (22 in the text after offset 0) and \<open>2. Details\<close> at
  offset 42 (41 there): the section of \<open>1. Overview\<close> is given the end 42.
\<close>

theorem find_section_end_skips_nearer_header:
  "search Numbered (drop 1 text_overview) = Some (41, 55, ''Details\<newline>End'')
   \<and> search AllCaps (drop 1 text_overview) = Some (22, 29, ''RESULTS'')
   \<and> nearest_header (drop 1 text_overview) = Some 22
   \<and> find_section_end text_overview 0 = 42"
  by code_simp

end
